theory Spec2Isabelle
  imports Main "HOL-Library.AList"
begin

section \<open>django-seeker: the indexing pipeline\<close>

text \<open>
  A shallow embedding of \<^verbatim>\<open>seeker/mapping.py\<close> and \<^verbatim>\<open>seeker/registry.py\<close>.
  Python exceptions are values of \<open>error\<close>; a function that may raise returns
  \<open>error + 'a\<close> with \<open>Inl\<close> for the exception. The relational layer (Django) and
  the search library (elasticsearch-dsl) are represented by the data they hand to this
  code: records with named attributes, managers with their related records, field
  descriptors with their class.
\<close>

datatype error = AttributeError | AssertionError | ValueError

subsection \<open>Python values seen by \<^verbatim>\<open>follow\<close>\<close>

text \<open>
  \<^item> \<open>PModel pk txt attrs displays\<close> is an instance of \<^verbatim>\<open>models.Model\<close>: its primary
    key, its text form (\<^verbatim>\<open>six.text_type(obj)\<close>), the attributes readable by name, and
    its display getters. An entry \<open>(s, v)\<close> of \<open>displays\<close> is the method
    \<^verbatim>\<open>get_<s>_display\<close>, which returns \<open>v\<close> when called; attributes of this name are
    kept in \<open>displays\<close>, all others in \<open>attrs\<close>.
  \<^item> \<open>PManager objs\<close> is a \<^verbatim>\<open>models.Manager\<close> (a to-many relation); \<^verbatim>\<open>all()\<close> iterates
    \<open>objs\<close> in this order.
  \<^item> \<open>PNone\<close>, \<open>PBool\<close>, \<open>PInt\<close>, \<open>PStr\<close> are native scalars, \<open>PList\<close> a Python list.
  These values hold what a record hands out when no read raises: reading an attribute,
  calling a display getter, iterating a manager and taking the text form return what
  the record holds, and no attribute of a scalar, a list or a manager is read. Reads
  that raise and the attributes of builtin values are in \<open>pyobj\<close> and \<open>follow_env\<close>
  below, on which the property of missing attributes is stated.
\<close>

datatype pk_value = IntPk int | StrPk string

datatype pyval =
    PNone
  | PBool bool
  | PInt int
  | PStr string
  | PList "pyval list"
  | PManager "pyval list"
  | PModel pk_value string "(string \<times> pyval) list" "(string \<times> pyval) list"

text \<open>\<^verbatim>\<open>getattr(obj, name)\<close>: raises AttributeError when the attribute is absent.
  \<^verbatim>\<open>pk\<close> is a property of every model instance.\<close>

fun pk_to_pyval :: "pk_value \<Rightarrow> pyval" where
  "pk_to_pyval (IntPk i) = PInt i"
| "pk_to_pyval (StrPk s) = PStr s"

fun py_getattr :: "pyval \<Rightarrow> string \<Rightarrow> error + pyval" where
  "py_getattr (PModel pk txt attrs displays) name =
     (if name = ''pk'' then Inr (pk_to_pyval pk)
      else (case map_of attrs name of
              Some v \<Rightarrow> Inr v
            | None \<Rightarrow> Inl AttributeError))"
| "py_getattr obj name = Inl AttributeError"

text \<open>\<^verbatim>\<open>getattr(obj, name, default)\<close>: the AttributeError is caught.\<close>

definition py_getattr_default :: "pyval \<Rightarrow> string \<Rightarrow> pyval \<Rightarrow> pyval" where
  "py_getattr_default obj name dflt =
     (case py_getattr obj name of Inl e \<Rightarrow> dflt | Inr v \<Rightarrow> v)"

text \<open>\<^verbatim>\<open>getattr(obj, 'get_%s_display' % part)()\<close> and
  \<^verbatim>\<open>hasattr(obj, 'get_%s_display' % part)\<close>.\<close>

fun call_display :: "pyval \<Rightarrow> string \<Rightarrow> error + pyval" where
  "call_display (PModel pk txt attrs displays) part =
     (case map_of displays part of
        Some v \<Rightarrow> Inr v
      | None \<Rightarrow> Inl AttributeError)"
| "call_display obj part = Inl AttributeError"

definition has_display :: "pyval \<Rightarrow> string \<Rightarrow> bool" where
  "has_display obj part =
     (case call_display obj part of Inl e \<Rightarrow> False | Inr v \<Rightarrow> True)"

fun isinstance_Manager :: "pyval \<Rightarrow> bool" where
  "isinstance_Manager (PManager objs) = True"
| "isinstance_Manager obj = False"

fun manager_all :: "pyval \<Rightarrow> pyval list" where
  "manager_all (PManager objs) = objs"
| "manager_all obj = []"

fun isinstance_Model :: "pyval \<Rightarrow> bool" where
  "isinstance_Model (PModel pk txt attrs displays) = True"
| "isinstance_Model obj = False"

fun text_type :: "pyval \<Rightarrow> string" where
  "text_type (PModel pk txt attrs displays) = txt"
| "text_type obj = []"

subsection \<open>Paths: \<^verbatim>\<open>path.split('__')\<close> and \<^verbatim>\<open>'__'.join(parts)\<close>\<close>

text \<open>Python's \<^verbatim>\<open>str.split\<close> scans from the left and cuts at each non-overlapping
  occurrence of the separator; the empty string splits into one empty part.\<close>

fun split_dunder :: "string \<Rightarrow> string list" where
  "split_dunder [] = [[]]"
| "split_dunder [c] = [[c]]"
| "split_dunder (c # d # cs) =
     (if c = CHR ''_'' \<and> d = CHR ''_'' then [] # split_dunder cs
      else (case split_dunder (d # cs) of
              [] \<Rightarrow> [[c]]
            | p # ps \<Rightarrow> (c # p) # ps))"

fun join_dunder :: "string list \<Rightarrow> string" where
  "join_dunder [] = []"
| "join_dunder [p] = p"
| "join_dunder (p # q # ps) = p @ ''__'' @ join_dunder (q # ps)"

text \<open>\<^verbatim>\<open>parts = path.split('__') if path else []\<close>\<close>

definition path_parts :: "string \<Rightarrow> string list" where
  "path_parts path = (if path = [] then [] else split_dunder path)"

text \<open>The size of a list of parts, for the termination of \<open>follow\<close>: the recursive
  call gets the joined remainder of the path, which is shorter than the path.\<close>

fun parts_weight :: "string list \<Rightarrow> nat" where
  "parts_weight [] = 0"
| "parts_weight (p # ps) = length p + 2 + parts_weight ps"

lemma split_dunder_nonempty: "split_dunder s \<noteq> []"
  by (induction s rule: split_dunder.induct) (auto split: list.splits)

lemma join_dunder_Cons: "ps \<noteq> [] \<Longrightarrow> join_dunder (p # ps) = p @ ''__'' @ join_dunder ps"
  by (cases ps) auto

lemma join_split_dunder: "join_dunder (split_dunder s) = s"
proof (induction s rule: split_dunder.induct)
  case (3 c d cs)
  show ?case
  proof (cases "c = CHR ''_'' \<and> d = CHR ''_''")
    case True
    with 3 show ?thesis by (simp add: join_dunder_Cons split_dunder_nonempty)
  next
    case False
    obtain p ps where sp: "split_dunder (d # cs) = p # ps"
      using split_dunder_nonempty [of "d # cs"] by (cases "split_dunder (d # cs)") auto
    with 3 False have "join_dunder (p # ps) = d # cs" by simp
    then have "join_dunder ((c # p) # ps) = c # d # cs" by (cases ps) auto
    with False sp show ?thesis by auto
  qed
qed simp_all

lemma parts_weight_join: "ps \<noteq> [] \<Longrightarrow> parts_weight ps = length (join_dunder ps) + 2"
  by (induction ps rule: join_dunder.induct) auto

lemma parts_weight_path_parts: "parts_weight (path_parts (join_dunder ps)) \<le> parts_weight ps"
proof (cases "join_dunder ps = []")
  case True
  then show ?thesis by (simp add: path_parts_def)
next
  case False
  then have ne: "ps \<noteq> []" by auto
  have "parts_weight (split_dunder (join_dunder ps))
          = length (join_dunder (split_dunder (join_dunder ps))) + 2"
    by (rule parts_weight_join) (rule split_dunder_nonempty)
  also have "\<dots> = length (join_dunder ps) + 2" by (simp add: join_split_dunder)
  also have "\<dots> = parts_weight ps" using ne by (simp add: parts_weight_join)
  finally show ?thesis using False by (simp add: path_parts_def)
qed

subsection \<open>\<^verbatim>\<open>follow\<close>\<close>

text \<open>The list comprehension \<^verbatim>\<open>[follow(o, new_path) for o in obj.all()]\<close> stops at the
  first call that raises.\<close>

fun collect :: "(error + 'a) list \<Rightarrow> error + 'a list" where
  "collect [] = Inr []"
| "collect (Inl e # rs) = Inl e"
| "collect (Inr v # rs) = (case collect rs of Inl e \<Rightarrow> Inl e | Inr vs \<Rightarrow> Inr (v # vs))"

text \<open>
  \<open>follow_parts obj parts\<close> is the loop of \<^verbatim>\<open>follow\<close> with \<open>parts\<close> still to visit and
  \<open>obj\<close> the current object, followed by the code after the loop. At a manager the
  source joins the remaining parts and calls \<^verbatim>\<open>follow\<close> on each related record, which
  splits the joined path again.
\<close>

function follow_parts :: "pyval \<Rightarrow> string list \<Rightarrow> error + pyval" where
  "follow_parts obj [] =
     (if isinstance_Model obj then Inr (PStr (text_type obj)) else Inr obj)"
| "follow_parts obj (part # rest) =
     (if has_display obj part then call_display obj part
      else (let obj' = py_getattr_default obj part PNone in
            if isinstance_Manager obj' then
              (case collect (map (\<lambda>o'. follow_parts o' (path_parts (join_dunder rest)))
                                 (manager_all obj')) of
                 Inl e \<Rightarrow> Inl e
               | Inr vs \<Rightarrow> Inr (PList vs))
            else follow_parts obj' rest))"
  by pat_completeness auto
termination
proof (relation "measure (\<lambda>(obj, parts). parts_weight parts)")
  fix obj :: pyval and part :: string and rest :: "string list" and o' :: pyval
  show "((o', path_parts (join_dunder rest)), (obj, part # rest))
          \<in> measure (\<lambda>(obj, parts). parts_weight parts)"
    using parts_weight_path_parts [of rest] by simp
qed simp_all

definition follow :: "pyval \<Rightarrow> string \<Rightarrow> error + pyval" where
  "follow obj path = follow_parts obj (path_parts path)"

text \<open>
  Two notions used to state properties of \<open>follow\<close>.
  \<open>segment_name s\<close>: the string \<open>s\<close> is one segment of a path and stays one when
  \<^verbatim>\<open>__\<close> and further segments are appended to it: it contains no \<^verbatim>\<open>__\<close> and does not
  end with an underscore.
  \<open>plain_walk obj ps\<close>: the object the loop of \<open>follow\<close> holds after the segments \<open>ps\<close>,
  when none of them meets a display getter or a manager (where the loop returns).
\<close>

fun segment_name :: "string \<Rightarrow> bool" where
  "segment_name [] = True"
| "segment_name [c] = (c \<noteq> CHR ''_'')"
| "segment_name (c # d # cs) = (\<not> (c = CHR ''_'' \<and> d = CHR ''_'') \<and> segment_name (d # cs))"

fun plain_walk :: "pyval \<Rightarrow> string list \<Rightarrow> pyval option" where
  "plain_walk obj [] = Some obj"
| "plain_walk obj (part # rest) =
     (if has_display obj part then None
      else (let obj' = py_getattr_default obj part PNone in
            if isinstance_Manager obj' then None else plain_walk obj' rest))"


subsection \<open>\<^verbatim>\<open>Indexable\<close>: enumeration in batches\<close>





text \<open>The Django settings this code reads, each absent or set.\<close>

record settings =
  SEEKER_BATCH_SIZE :: "int option"
  SEEKER_INDEX :: "string option"



subsection \<open>\<^verbatim>\<open>Indexable.get_id\<close> and \<^verbatim>\<open>Indexable.get_data\<close>\<close>

text \<open>\<^verbatim>\<open>str\<close> of a primary key: a string is itself, an integer its decimal digits.\<close>

definition digit_char :: "nat \<Rightarrow> char" where
  "digit_char n = ''0123456789'' ! n"

fun digits :: "nat \<Rightarrow> string" where
  "digits n = (if n < 10 then [digit_char n] else digits (n div 10) @ [digit_char (n mod 10)])"

declare digits.simps [simp del]

fun str_of_pk :: "pk_value \<Rightarrow> string" where
  "str_of_pk (IntPk i) = (if i < 0 then CHR ''-'' # digits (nat (- i)) else digits (nat i))"
| "str_of_pk (StrPk s) = s"

text \<open>\<^verbatim>\<open>str(obj.pk)\<close>: only a model instance has \<^verbatim>\<open>pk\<close>.\<close>

fun get_id :: "pyval \<Rightarrow> error + string" where
  "get_id (PModel pk txt attrs displays) = Inr (str_of_pk pk)"
| "get_id obj = Inl AttributeError"

text \<open>\<^verbatim>\<open>data[name] = follow(obj, name)\<close> for every name of the mapping, in the order the
  mapping iterates them; \<open>data\<close> is a dict in insertion order.\<close>

fun get_data_loop ::
  "pyval \<Rightarrow> string list \<Rightarrow> (string \<times> pyval) list \<Rightarrow> error + (string \<times> pyval) list" where
  "get_data_loop obj [] data = Inr data"
| "get_data_loop obj (name # names) data =
     (case follow obj name of
        Inl e \<Rightarrow> Inl e
      | Inr v \<Rightarrow> get_data_loop obj names (AList.update name v data))"

definition get_data :: "string list \<Rightarrow> pyval \<Rightarrow> error + (string \<times> pyval) list" where
  "get_data mapping obj = get_data_loop obj mapping []"

subsection \<open>\<^verbatim>\<open>document_field\<close> and \<^verbatim>\<open>document_from_model\<close>\<close>

text \<open>
  The class of a model field. \<open>Subclass n c\<close> is a class named \<open>n\<close> that derives from
  \<open>c\<close> (as \<^verbatim>\<open>BigIntegerField\<close> derives from \<^verbatim>\<open>IntegerField\<close>); \<open>OtherField n\<close> is any
  other class deriving from \<^verbatim>\<open>Field\<close> directly. A dict keyed by classes finds a class
  only under itself; \<^verbatim>\<open>isinstance\<close> follows the derivation.
\<close>

datatype field_class =
    DateField
  | DateTimeField
  | IntegerField
  | AutoField
  | OtherField string
  | Subclass string field_class

record model_field =
  field_name :: string
  field_class :: field_class

text \<open>The search field types \<^verbatim>\<open>dsl.Date()\<close>, \<^verbatim>\<open>dsl.Long()\<close> and
  \<^verbatim>\<open>dsl.String(**params, fields={...})\<close>.\<close>

datatype es_field =
    Date
  | Long
  | String "(string \<times> string) list" "(string \<times> es_field) list"

definition document_field :: "model_field \<Rightarrow> es_field" where
  "document_field field =
     (let defaults = [(DateField, Date), (DateTimeField, Date), (IntegerField, Long)];
          s = String [(''analyzer'', ''snowball'')]
                     [(''raw'', String [(''index'', ''not_analyzed'')] [])]
      in case map_of defaults (field_class field) of
           Some t \<Rightarrow> t
         | None \<Rightarrow> s)"

fun isinstance_AutoField :: "field_class \<Rightarrow> bool" where
  "isinstance_AutoField AutoField = True"
| "isinstance_AutoField (Subclass n c) = isinstance_AutoField c"
| "isinstance_AutoField c = False"

record model_class =
  model_name :: string
  meta_fields :: "model_field list"
  meta_many_to_many :: "model_field list"

record es_mapping =
  mapping_name :: string
  mapping_properties :: "(string \<times> es_field) list"

record meta_class =
  meta_bases :: "string list"
  meta_index :: string
  meta_using :: string
  meta_doc_type :: string
  meta_mapping :: es_mapping

datatype attr_value =
    MetaAttr meta_class
  | ModelAttr model_class
  | FieldAttr es_field

record generated_class =
  class_name :: string
  class_bases :: "string list"
  class_attrs :: "(string \<times> attr_value) list"

text \<open>The document class passed in: its name, and the name of its \<^verbatim>\<open>Meta\<close> when it
  has one.\<close>

record document_base =
  base_name :: string
  base_Meta :: "string option"

text \<open>\<^verbatim>\<open>str.lower\<close> on the letters of ASCII.\<close>

definition lower_char :: "char \<Rightarrow> char" where
  "lower_char c =
     (let n = (of_char c :: nat)
      in if of_char CHR ''A'' \<le> n \<and> n \<le> of_char CHR ''Z'' then char_of (n + 32) else c)"

definition py_lower :: "string \<Rightarrow> string" where
  "py_lower s = map lower_char s"

text \<open>The loop \<^verbatim>\<open>for f in fields + many_to_many: if not isinstance(f, AutoField):
  attrs[f.name] = field_factory(f)\<close>.\<close>

fun add_field_attrs ::
  "(model_field \<Rightarrow> es_field) \<Rightarrow> model_field list \<Rightarrow> (string \<times> attr_value) list
     \<Rightarrow> (string \<times> attr_value) list" where
  "add_field_attrs field_factory [] attrs = attrs"
| "add_field_attrs field_factory (f # fs) attrs =
     add_field_attrs field_factory fs
       (if \<not> isinstance_AutoField (field_class f)
        then AList.update (field_name f) (FieldAttr (field_factory f)) attrs
        else attrs)"

text \<open>The parameters \<^verbatim>\<open>fields\<close> and \<^verbatim>\<open>exclude\<close> of the source are never read, so they
  are not parameters here.\<close>

definition document_from_model ::
  "settings \<Rightarrow> model_class \<Rightarrow> document_base \<Rightarrow> string option \<Rightarrow> string \<Rightarrow> string option
     \<Rightarrow> es_mapping option \<Rightarrow> (model_field \<Rightarrow> es_field) option \<Rightarrow> generated_class" where
  "document_from_model conf model_cls document_class index using doc_type mapping field_factory =
     (let meta_parent = (case base_Meta document_class of
                           Some m \<Rightarrow> [m, ''object'']
                         | None \<Rightarrow> [''object'']);
          index' = (case index of
                      None \<Rightarrow> (case SEEKER_INDEX conf of None \<Rightarrow> ''seeker'' | Some i \<Rightarrow> i)
                    | Some i \<Rightarrow> i);
          doc_type' = (case doc_type of None \<Rightarrow> py_lower (model_name model_cls) | Some d \<Rightarrow> d);
          mapping' = (case mapping of
                        None \<Rightarrow> \<lparr>mapping_name = doc_type', mapping_properties = []\<rparr>
                      | Some m \<Rightarrow> m);
          attrs = [(''Meta'', MetaAttr \<lparr>meta_bases = meta_parent, meta_index = index',
                                         meta_using = using, meta_doc_type = doc_type',
                                         meta_mapping = mapping'\<rparr>),
                   (''_model'', ModelAttr model_cls)];
          field_factory' = (case field_factory of None \<Rightarrow> document_field | Some ff \<Rightarrow> ff)
      in \<lparr>class_name = model_name model_cls @ ''Doc'',
          class_bases = [base_name document_class, ''Indexable''],
          class_attrs = add_field_attrs field_factory'
                          (meta_fields model_cls @ meta_many_to_many model_cls) attrs\<rparr>)"

text \<open>The attributes of a generated class that are search fields: its field schema.\<close>

fun schema_fields :: "(string \<times> attr_value) list \<Rightarrow> (string \<times> es_field) list" where
  "schema_fields [] = []"
| "schema_fields ((n, FieldAttr t) # attrs) = (n, t) # schema_fields attrs"
| "schema_fields ((n, a) # attrs) = schema_fields attrs"

subsection \<open>The registry\<close>

text \<open>
  A document class as \<^verbatim>\<open>register\<close> sees it: \<open>cid\<close> is its identity (a class equals only
  itself, so \<^verbatim>\<open>doc_class in documents\<close> compares identities), the two flags are
  \<^verbatim>\<open>issubclass(doc_class, Indexable)\<close> and \<^verbatim>\<open>issubclass(doc_class, ModelIndex)\<close>,
  \<open>queryset_model\<close> is \<^verbatim>\<open>doc_class.queryset().model\<close> (the identity of a model class;
  \<open>None\<close> when that expression raises, as it does for \<^verbatim>\<open>_model = None\<close>), and
  \<open>doc_type_name\<close> is \<^verbatim>\<open>doc_class._doc_type.name\<close>. \<^verbatim>\<open>ModelIndex\<close> is imported by
  \<^verbatim>\<open>registry.py\<close> from \<^verbatim>\<open>mapping.py\<close>, which does not declare it; membership is therefore
  a flag of the class.
\<close>

record doc_class =
  cid :: nat
  is_Indexable :: bool
  is_ModelIndex :: bool
  queryset_model :: "nat option"
  doc_type_name :: string

record app_config =
  is_AppConfig :: bool
  app_name :: string
  app_label :: string

text \<open>What \<^verbatim>\<open>register\<close> reads from its environment: the installed applications, and the
  \<^verbatim>\<open>label\<close> of the thread-local \<^verbatim>\<open>current_app\<close> when it has one.\<close>

record world =
  installed_apps :: "string list"
  current_app_label :: "string option"

record registry =
  documents :: "doc_class list"
  model_documents :: "nat \<rightharpoonup> doc_class list"
  model_doc_types :: "string \<rightharpoonup> nat"
  app_documents :: "string \<rightharpoonup> doc_class list"

datatype outcome = Returned | Raised error

definition in_documents :: "doc_class \<Rightarrow> registry \<Rightarrow> bool" where
  "in_documents doc reg = (cid doc \<in> set (map cid (documents reg)))"

text \<open>\<^verbatim>\<open>d.setdefault(key, []).append(x)\<close>\<close>

definition setdefault_append :: "('k \<rightharpoonup> 'v list) \<Rightarrow> 'k \<Rightarrow> 'v \<Rightarrow> ('k \<rightharpoonup> 'v list)" where
  "setdefault_append d key x = d(key \<mapsto> (case d key of None \<Rightarrow> [] | Some xs \<Rightarrow> xs) @ [x])"

text \<open>The two assertions at the head of \<^verbatim>\<open>register\<close>.\<close>

definition assert_indexable :: "doc_class \<Rightarrow> bool" where
  "assert_indexable doc = is_Indexable doc"

definition assert_app :: "world \<Rightarrow> app_config option \<Rightarrow> bool" where
  "assert_app w app =
     (case app of
        None \<Rightarrow> True
      | Some a \<Rightarrow> is_AppConfig a \<and> app_name a \<in> set (installed_apps w))"

text \<open>The \<^verbatim>\<open>try\<close> block at the end: a missing \<^verbatim>\<open>label\<close> raises inside it and is
  swallowed before anything is stored.\<close>

definition register_app :: "world \<Rightarrow> registry \<Rightarrow> doc_class \<Rightarrow> app_config option \<Rightarrow> registry" where
  "register_app w reg doc app =
     (case (case app of Some a \<Rightarrow> Some (app_label a) | None \<Rightarrow> current_app_label w) of
        None \<Rightarrow> reg
      | Some label \<Rightarrow>
          reg\<lparr>app_documents := setdefault_append (app_documents reg) label doc\<rparr>)"

text \<open>\<^verbatim>\<open>register\<close> returns how the call ended and the registry it leaves behind: the
  tables are globals, so what was stored before an exception stays stored.\<close>

definition register ::
  "world \<Rightarrow> registry \<Rightarrow> doc_class \<Rightarrow> app_config option \<Rightarrow> outcome \<times> registry" where
  "register w reg doc app =
     (if \<not> assert_indexable doc then (Raised AssertionError, reg)
      else if \<not> assert_app w app then (Raised AssertionError, reg)
      else if in_documents doc reg then (Returned, reg)
      else
        (let reg1 = reg\<lparr>documents := documents reg @ [doc]\<rparr> in
         if is_ModelIndex doc then
           (case queryset_model doc of
              None \<Rightarrow> (Raised AttributeError, reg1)
            | Some model_cls \<Rightarrow>
                (let reg2 = reg1\<lparr>model_documents :=
                                   setdefault_append (model_documents reg1) model_cls doc\<rparr>;
                     reg3 = reg2\<lparr>model_doc_types :=
                                   (model_doc_types reg2)(doc_type_name doc \<mapsto> model_cls)\<rparr>
                 in (Returned, register_app w reg3 doc app)))
         else (Returned, register_app w reg1 doc app)))"

subsection \<open>\<^verbatim>\<open>follow\<close> with reads that raise and attributes of builtin values\<close>

text \<open>
  The values above hold what a record hands out when nothing goes wrong. The objects
  below also say where Python raises, and leave the attributes of every value that is
  not a model instance to an environment.
  \<^item> \<open>OModel txt attrs displays\<close> is an instance of \<^verbatim>\<open>models.Model\<close>. \<open>txt\<close> is what
    \<^verbatim>\<open>six.text_type(obj)\<close> does: it returns a string or raises. An entry \<open>(n, r)\<close> of
    \<open>attrs\<close> is the attribute \<open>n\<close>: reading it returns a value or raises (the manager
    of a many-to-many field of an unsaved instance raises ValueError; a reverse
    one-to-one relation without a row raises a subclass of AttributeError). An entry
    \<open>(s, r)\<close> of \<open>displays\<close> is the method \<^verbatim>\<open>get_<s>_display\<close>: calling it returns a
    value or raises. The primary key is the attribute \<^verbatim>\<open>pk\<close> of \<open>attrs\<close>.
  \<^item> \<open>OManager r\<close> is a \<^verbatim>\<open>models.Manager\<close>: iterating \<^verbatim>\<open>all()\<close> gives the related
    records in order or raises.
  \<^item> \<open>ONone\<close>, \<open>OBool\<close>, \<open>OInt\<close>, \<open>OStr\<close>, \<open>OList\<close> are the native values, and
    \<open>OOther\<close> is any other Python object (a bound method, a class), by a label.
\<close>

datatype pyobj =
    ONone
  | OBool bool
  | OInt int
  | OStr string
  | OList "pyobj list"
  | OOther string
  | OManager "error + pyobj list"
  | OModel "error + string" "(string \<times> (error + pyobj)) list" "(string \<times> (error + pyobj)) list"

text \<open>
  The attribute tables of Python's builtin types and of other objects are not part of
  the source, so they are a parameter: \<open>env_getattr E obj name\<close> is what reading the
  attribute \<open>name\<close> of \<open>obj\<close> does (\<open>None\<close>: there is no such attribute), and
  \<open>env_display E obj part\<close> is what calling \<^verbatim>\<open>get_<part>_display\<close> of \<open>obj\<close> does
  (\<open>None\<close>: there is no such method). For the integer 5 and the name \<^verbatim>\<open>real\<close> Python's
  own table gives 5.
\<close>

record environment =
  env_getattr :: "pyobj \<Rightarrow> string \<Rightarrow> (error + pyobj) option"
  env_display :: "pyobj \<Rightarrow> string \<Rightarrow> (error + pyobj) option"

text \<open>The attributes of \<^verbatim>\<open>None\<close> are special names, which begin with two underscores;
  so are none of the names \<^verbatim>\<open>get_<part>_display\<close>.\<close>

definition special_name :: "string \<Rightarrow> bool" where
  "special_name name = (take 2 name = ''__'')"

text \<open>\<^verbatim>\<open>getattr(obj, name)\<close>: an absent attribute raises AttributeError, and a read may
  raise an exception of its own.\<close>

fun obj_getattr :: "environment \<Rightarrow> pyobj \<Rightarrow> string \<Rightarrow> error + pyobj" where
  "obj_getattr E (OModel txt attrs displays) name =
     (case map_of attrs name of
        Some r \<Rightarrow> r
      | None \<Rightarrow> Inl AttributeError)"
| "obj_getattr E ONone name =
     (if special_name name then
        (case env_getattr E ONone name of
           Some r \<Rightarrow> r
         | None \<Rightarrow> Inl AttributeError)
      else Inl AttributeError)"
| "obj_getattr E obj name =
     (case env_getattr E obj name of
        Some r \<Rightarrow> r
      | None \<Rightarrow> Inl AttributeError)"

text \<open>\<^verbatim>\<open>getattr(obj, name, default)\<close> catches AttributeError and nothing else.\<close>

definition obj_getattr_default ::
  "environment \<Rightarrow> pyobj \<Rightarrow> string \<Rightarrow> pyobj \<Rightarrow> error + pyobj" where
  "obj_getattr_default E obj name dflt =
     (case obj_getattr E obj name of
        Inl e \<Rightarrow> (if e = AttributeError then Inr dflt else Inl e)
      | Inr v \<Rightarrow> Inr v)"

text \<open>\<^verbatim>\<open>hasattr(obj, 'get_%s_display' % part)\<close> finds the method;
  \<^verbatim>\<open>getattr(obj, 'get_%s_display' % part)()\<close> calls it.\<close>

fun obj_display :: "environment \<Rightarrow> pyobj \<Rightarrow> string \<Rightarrow> (error + pyobj) option" where
  "obj_display E (OModel txt attrs displays) part = map_of displays part"
| "obj_display E ONone part = None"
| "obj_display E obj part = env_display E obj part"

definition obj_has_display :: "environment \<Rightarrow> pyobj \<Rightarrow> string \<Rightarrow> bool" where
  "obj_has_display E obj part = (obj_display E obj part \<noteq> None)"

definition obj_call_display :: "environment \<Rightarrow> pyobj \<Rightarrow> string \<Rightarrow> error + pyobj" where
  "obj_call_display E obj part =
     (case obj_display E obj part of
        Some r \<Rightarrow> r
      | None \<Rightarrow> Inl AttributeError)"

fun obj_is_Manager :: "pyobj \<Rightarrow> bool" where
  "obj_is_Manager (OManager r) = True"
| "obj_is_Manager obj = False"

fun obj_manager_all :: "pyobj \<Rightarrow> error + pyobj list" where
  "obj_manager_all (OManager r) = r"
| "obj_manager_all obj = Inl AttributeError"

fun obj_is_Model :: "pyobj \<Rightarrow> bool" where
  "obj_is_Model (OModel txt attrs displays) = True"
| "obj_is_Model obj = False"

fun obj_text_type :: "pyobj \<Rightarrow> error + string" where
  "obj_text_type (OModel txt attrs displays) = txt"
| "obj_text_type obj = Inr []"

text \<open>
  The loop of \<^verbatim>\<open>follow\<close> and the code after it, as \<open>follow_parts\<close> above. No line of the
  source is inside a \<^verbatim>\<open>try\<close>: an exception of the display getter (line 15), of the
  attribute read other than AttributeError (line 18), of the manager or of a recursive
  call (line 23) and of the text conversion (line 26) ends the call.
\<close>

function follow_env_parts :: "environment \<Rightarrow> pyobj \<Rightarrow> string list \<Rightarrow> error + pyobj" where
  "follow_env_parts E obj [] =
     (if obj_is_Model obj then
        (case obj_text_type obj of Inl e \<Rightarrow> Inl e | Inr s \<Rightarrow> Inr (OStr s))
      else Inr obj)"
| "follow_env_parts E obj (part # rest) =
     (if obj_has_display E obj part then obj_call_display E obj part
      else (case obj_getattr_default E obj part ONone of
              Inl e \<Rightarrow> Inl e
            | Inr obj' \<Rightarrow>
                if obj_is_Manager obj' then
                  (case obj_manager_all obj' of
                     Inl e \<Rightarrow> Inl e
                   | Inr objs \<Rightarrow>
                       (case collect (map (\<lambda>o'. follow_env_parts E o'
                                                   (path_parts (join_dunder rest))) objs) of
                          Inl e \<Rightarrow> Inl e
                        | Inr vs \<Rightarrow> Inr (OList vs)))
                else follow_env_parts E obj' rest))"
  by pat_completeness auto
termination
proof (relation "measure (\<lambda>(E, obj, parts). parts_weight parts)")
  fix E :: environment and obj o' :: pyobj and part :: string and rest :: "string list"
  show "((E, o', path_parts (join_dunder rest)), (E, obj, part # rest))
          \<in> measure (\<lambda>(E, obj, parts). parts_weight parts)"
    using parts_weight_path_parts [of rest] by simp
qed simp_all

definition follow_env :: "environment \<Rightarrow> pyobj \<Rightarrow> string \<Rightarrow> error + pyobj" where
  "follow_env E obj path = follow_env_parts E obj (path_parts path)"


text \<open>
  \<open>quiet obj\<close>: nothing that \<^verbatim>\<open>follow\<close> can reach from \<open>obj\<close> raises, but for attribute
  reads that raise AttributeError: the text conversion of a record returns, its display
  getters return, its managers iterate, and the same holds for the values of its
  attributes. \<open>quiet_env E\<close> says the same of the environment.
\<close>

fun quiet :: "pyobj \<Rightarrow> bool" where
  "quiet (OModel txt attrs displays) =
     ((case txt of Inl e \<Rightarrow> False | Inr s \<Rightarrow> True)
      \<and> (\<forall>(n, r) \<in> set attrs. case r of Inl e \<Rightarrow> e = AttributeError | Inr v \<Rightarrow> quiet v)
      \<and> (\<forall>(s, r) \<in> set displays. case r of Inl e \<Rightarrow> False | Inr v \<Rightarrow> True))"
| "quiet (OManager r) = (case r of Inl e \<Rightarrow> False | Inr objs \<Rightarrow> (\<forall>o' \<in> set objs. quiet o'))"
| "quiet obj = True"

definition quiet_env :: "environment \<Rightarrow> bool" where
  "quiet_env E =
     ((\<forall>obj name r. env_getattr E obj name = Some r \<longrightarrow>
          (case r of Inl e \<Rightarrow> e = AttributeError | Inr v \<Rightarrow> quiet v))
      \<and> (\<forall>obj part r. env_display E obj part = Some r \<longrightarrow>
          (case r of Inl e \<Rightarrow> False | Inr v \<Rightarrow> True)))"

text \<open>The environment in which the values that are not model instances have no
  attribute and no display getter.\<close>

definition no_builtins :: environment where
  "no_builtins = \<lparr>env_getattr = (\<lambda>obj name. None), env_display = (\<lambda>obj part. None)\<rparr>"

text \<open>The values of \<open>pyval\<close> as objects: every read returns what the record holds.\<close>

fun lift_pk :: "pk_value \<Rightarrow> pyobj" where
  "lift_pk (IntPk i) = OInt i"
| "lift_pk (StrPk s) = OStr s"

fun lift :: "pyval \<Rightarrow> pyobj" where
  "lift PNone = ONone"
| "lift (PBool b) = OBool b"
| "lift (PInt i) = OInt i"
| "lift (PStr s) = OStr s"
| "lift (PList vs) = OList (map lift vs)"
| "lift (PManager objs) = OManager (Inr (map lift objs))"
| "lift (PModel pk txt attrs displays) =
     OModel (Inr txt)
       ((''pk'', Inr (lift_pk pk)) # map (\<lambda>(n, v). (n, Inr (lift v))) attrs)
       (map (\<lambda>(s, v). (s, Inr (lift v))) displays)"

section \<open>Example records\<close>

text \<open>The scenario of the specification: an article with id 5, title Hello and two
  tags named a and b.\<close>

definition tag_a :: pyval where
  "tag_a = PModel (IntPk 1) ''a'' [(''id'', PInt 1), (''name'', PStr ''a'')] []"

definition tag_b :: pyval where
  "tag_b = PModel (IntPk 2) ''b'' [(''id'', PInt 2), (''name'', PStr ''b'')] []"

definition article :: pyval where
  "article =
     PModel (IntPk 5) ''Hello''
       [(''id'', PInt 5), (''title'', PStr ''Hello''), (''tags'', PManager [tag_a, tag_b])]
       []"

text \<open>An article whose \<^verbatim>\<open>status\<close> field has choices, so that Django attaches
  \<^verbatim>\<open>get_status_display\<close>; and a record that refers to it.\<close>

definition article_status :: pyval where
  "article_status =
     PModel (IntPk 7) ''Article 7''
       [(''id'', PInt 7), (''status'', PInt 2), (''title'', PStr ''Hello'')]
       [(''status'', PStr ''Published'')]"

definition shelf :: pyval where
  "shelf = PModel (IntPk 1) ''Shelf 1'' [(''id'', PInt 1), (''top'', article_status)] []"


text \<open>An article with two display getters: one for its field \<^verbatim>\<open>status\<close> and one
  under the empty segment name (\<^verbatim>\<open>get__display\<close>).\<close>

definition article_displayed :: pyval where
  "article_displayed =
     PModel (IntPk 8) ''Article 8''
       [(''id'', PInt 8), (''status'', PInt 2)]
       [(''status'', PStr ''Published''), ([], PStr ''Shown'')]"

text \<open>A model with an automatic primary key, two concrete fields and a
  many-to-many field; further field descriptors.\<close>

definition id_field :: model_field where
  "id_field = \<lparr>field_name = ''id'', field_class = AutoField\<rparr>"

definition title_field :: model_field where
  "title_field = \<lparr>field_name = ''title'', field_class = OtherField ''CharField''\<rparr>"

definition created_field :: model_field where
  "created_field = \<lparr>field_name = ''created'', field_class = DateField\<rparr>"

definition updated_field :: model_field where
  "updated_field = \<lparr>field_name = ''updated'', field_class = DateField\<rparr>"

definition views_field :: model_field where
  "views_field = \<lparr>field_name = ''views'', field_class = Subclass ''BigIntegerField'' IntegerField\<rparr>"

definition tags_field :: model_field where
  "tags_field = \<lparr>field_name = ''tags'', field_class = OtherField ''ManyToManyField''\<rparr>"

definition article_model :: model_class where
  "article_model = \<lparr>model_name = ''Article'',
                     meta_fields = [id_field, title_field, created_field],
                     meta_many_to_many = [tags_field]\<rparr>"

definition doc_type_base :: document_base where
  "doc_type_base = \<lparr>base_name = ''DocType'', base_Meta = None\<rparr>"

definition no_settings :: settings where
  "no_settings = \<lparr>SEEKER_BATCH_SIZE = None, SEEKER_INDEX = None\<rparr>"

definition text_with_raw :: es_field where
  "text_with_raw = String [(''analyzer'', ''snowball'')]
                          [(''raw'', String [(''index'', ''not_analyzed'')] [])]"

text \<open>A document class, a second class with the same attributes and another identity,
  an installed application and one that is not installed, and the registry after the
  first class was registered.\<close>

definition article_doc :: doc_class where
  "article_doc = \<lparr>cid = 1, is_Indexable = True, is_ModelIndex = True,
                   queryset_model = Some 10, doc_type_name = ''article''\<rparr>"

definition article_doc_twin :: doc_class where
  "article_doc_twin = article_doc\<lparr>cid := 2\<rparr>"

definition blog_app :: app_config where
  "blog_app = \<lparr>is_AppConfig = True, app_name = ''blog'', app_label = ''blog''\<rparr>"

definition ghost_app :: app_config where
  "ghost_app = \<lparr>is_AppConfig = True, app_name = ''ghost'', app_label = ''ghost''\<rparr>"

definition blog_world :: world where
  "blog_world = \<lparr>installed_apps = [''blog''], current_app_label = None\<rparr>"

definition empty_registry :: registry where
  "empty_registry = \<lparr>documents = [], model_documents = Map.empty,
                      model_doc_types = Map.empty, app_documents = Map.empty\<rparr>"

definition article_registry :: registry where
  "article_registry = snd (register blog_world empty_registry article_doc (Some blog_app))"



section \<open>Properties\<close>

subsection \<open>Paths\<close>


lemma split_dunder_append:
  "segment_name s \<Longrightarrow> split_dunder (s @ CHR ''_'' # CHR ''_'' # x) = s # split_dunder x"
proof (induction s rule: segment_name.induct)
  case 1
  then show ?case by simp
next
  case (2 c)
  then show ?case by simp
next
  case (3 c d cs)
  then show ?case by (cases cs) auto
qed

lemma path_parts_append:
  "segment_name s \<Longrightarrow> path_parts (s @ CHR ''_'' # CHR ''_'' # x) = s # split_dunder x"
  by (simp add: path_parts_def split_dunder_append)



subsection \<open>The loop of \<^verbatim>\<open>follow\<close>\<close>






lemma follow_parts_walk:
  "plain_walk obj ps = Some cur \<Longrightarrow> follow_parts obj (ps @ rest) = follow_parts cur rest"
  by (induction obj ps rule: plain_walk.induct) (auto simp: Let_def split: if_splits)

lemma plain_walk_append:
  "plain_walk obj ps = Some cur \<Longrightarrow> plain_walk obj (ps @ qs) = plain_walk cur qs"
  by (induction obj ps rule: plain_walk.induct) (auto simp: Let_def split: if_splits)

lemma follow_parts_display:
  "call_display obj part = Inr d \<Longrightarrow> follow_parts obj (part # rest) = Inr d"
  by (simp add: has_display_def)


subsection \<open>Display values end the resolution\<close>

text \<open>
  Claim C3. Let \<open>r\<close> have a display getter for the segment \<open>s\<close> that returns \<open>d\<close>. Then
  \<^verbatim>\<open>follow(r, "s__anything")\<close> returns \<open>d\<close> for every suffix, and the same holds wherever
  the loop stands: with \<open>r\<close> the current object and \<open>s\<close> the next segment the result is
  \<open>d\<close> whatever segments remain, also when \<open>r\<close> was reached from another record through
  earlier segments.
\<close>

theorem follow_display_terminates:
  assumes "call_display r s = Inr d"
  shows "(segment_name s \<longrightarrow> follow r (s @ ''__'' @ anything) = Inr d)
       \<and> follow_parts r (s # rest) = Inr d
       \<and> (plain_walk obj ps = Some r \<longrightarrow> follow_parts obj (ps @ s # rest) = Inr d)"
  using assms
  by (auto simp: follow_def path_parts_append follow_parts_display follow_parts_walk
           simp del: follow_parts.simps)

theorem follow_display_terminates_witness:
  "call_display article_status ''status'' = Inr (PStr ''Published'')
   \<and> segment_name ''status''
   \<and> follow article_status ''status__title__anything'' = Inr (PStr ''Published'')
   \<and> follow_parts article_status [''status'', ''title''] = Inr (PStr ''Published'')
   \<and> plain_walk shelf [''top''] = Some article_status
   \<and> follow_parts shelf [''top'', ''status'', ''title''] = Inr (PStr ''Published'')"
  using follow_display_terminates [of article_status "''status''" "PStr ''Published''"
      "''title__anything''" "[''title'']" shelf "[''top'']"]
  by (simp add: article_status_def shelf_def has_display_def py_getattr_default_def)

lemma plain_walk_None: "plain_walk PNone qs = Some PNone"
  by (induction qs) (simp_all add: has_display_def py_getattr_default_def)

lemma plain_walk_missing:
  "\<not> has_display cur p \<Longrightarrow> py_getattr cur p = Inl AttributeError
     \<Longrightarrow> plain_walk cur (p # qs) = Some PNone"
  by (simp add: py_getattr_default_def plain_walk_None)

subsection \<open>Missing attributes\<close>


















lemma map_of_lift:
  "map_of (map (\<lambda>(n, v). (n, Inr (lift v))) kvs) name
     = map_option (\<lambda>v. Inr (lift v)) (map_of kvs name)"
  by (induction kvs) auto

lemma lift_is_Model [simp]: "obj_is_Model (lift obj) = isinstance_Model obj"
  by (cases obj) simp_all

lemma lift_is_Manager [simp]: "obj_is_Manager (lift obj) = isinstance_Manager obj"
  by (cases obj) simp_all

lemma lift_manager_all:
  "isinstance_Manager obj \<Longrightarrow> obj_manager_all (lift obj) = Inr (map lift (manager_all obj))"
  by (cases obj) simp_all

lemma lift_text_type:
  "isinstance_Model obj \<Longrightarrow> obj_text_type (lift obj) = Inr (text_type obj)"
  by (cases obj) simp_all

lemma lift_pk_to_pyval: "lift (pk_to_pyval pk) = lift_pk pk"
  by (cases pk) simp_all

lemma lift_has_display [simp]: "obj_has_display no_builtins (lift obj) part = has_display obj part"
  by (cases obj)
     (auto simp: obj_has_display_def has_display_def no_builtins_def map_of_lift
           split: option.splits)

lemma lift_call_display:
  "obj_call_display no_builtins (lift obj) part = map_sum (\<lambda>e. e) lift (call_display obj part)"
  by (cases obj)
     (auto simp: obj_call_display_def no_builtins_def map_of_lift split: option.splits)

lemma lift_getattr:
  "obj_getattr no_builtins (lift obj) name = map_sum (\<lambda>e. e) lift (py_getattr obj name)"
  by (cases obj) (auto simp: no_builtins_def map_of_lift lift_pk_to_pyval split: option.splits)

lemma py_getattr_error: "py_getattr obj name = Inl e \<Longrightarrow> e = AttributeError"
  by (cases obj) (auto split: if_splits option.splits)

lemma lift_getattr_default:
  "obj_getattr_default no_builtins (lift obj) name ONone
     = Inr (lift (py_getattr_default obj name PNone))"
proof (cases "py_getattr obj name")
  case (Inl e)
  then have "e = AttributeError" by (rule py_getattr_error)
  with Inl show ?thesis
    by (simp add: obj_getattr_default_def py_getattr_default_def lift_getattr)
next
  case (Inr v)
  then show ?thesis
    by (simp add: obj_getattr_default_def py_getattr_default_def lift_getattr)
qed

lemma collect_map_sum:
  "collect (map (\<lambda>x. map_sum (\<lambda>e. e) f (g x)) xs) = map_sum (\<lambda>e. e) (map f) (collect (map g xs))"
proof (induction xs)
  case Nil
  then show ?case by simp
next
  case (Cons x xs)
  then show ?case by (cases "g x"; cases "collect (map g xs)") simp_all
qed

text \<open>The values of the first model are the objects on which no read raises, in the
  environment without builtin attributes; there the two functions agree.\<close>

lemma follow_env_parts_lift:
  "follow_env_parts no_builtins (lift obj) parts = map_sum (\<lambda>e. e) lift (follow_parts obj parts)"
proof (induction obj parts rule: follow_parts.induct)
  case (1 obj)
  then show ?case by (simp add: lift_text_type)
next
  case (2 obj part rest)
  show ?case
  proof (cases "has_display obj part")
    case True
    then show ?thesis by (simp add: lift_call_display)
  next
    case nd: False
    let ?obj' = "py_getattr_default obj part PNone"
    show ?thesis
    proof (cases "isinstance_Manager ?obj'")
      case True
      have "map (\<lambda>o'. follow_env_parts no_builtins o' (path_parts (join_dunder rest)))
              (map lift (manager_all ?obj'))
            = map (\<lambda>o'. map_sum (\<lambda>e. e) lift (follow_parts o' (path_parts (join_dunder rest))))
                (manager_all ?obj')"
        using "2.IH"(1) [OF nd refl True] by simp
      then have "collect (map (\<lambda>o'. follow_env_parts no_builtins o' (path_parts (join_dunder rest)))
              (map lift (manager_all ?obj')))
            = map_sum (\<lambda>e. e) (map lift)
                (collect (map (\<lambda>o'. follow_parts o' (path_parts (join_dunder rest)))
                   (manager_all ?obj')))"
        by (simp only: collect_map_sum)
      with nd True show ?thesis
        by (simp add: lift_getattr_default lift_manager_all split: sum.splits)
    next
      case False
      with nd "2.IH"(2) [OF nd refl False] show ?thesis
        by (simp add: lift_getattr_default)
    qed
  qed
qed

lemma follow_env_lift:
  "follow_env no_builtins (lift obj) path = map_sum (\<lambda>e. e) lift (follow obj path)"
  by (simp add: follow_env_def follow_def follow_env_parts_lift)


lemma quiet_no_builtins: "quiet_env no_builtins"
  by (simp add: quiet_env_def no_builtins_def)




subsection \<open>To-many relations\<close>





subsection \<open>The empty path\<close>

text \<open>
  Claim C7 as the code has it. With the empty path the loop is not entered: a model
  instance is returned as its text form, whether or not it has display getters, and
  any other object is returned as it is.
\<close>

theorem follow_empty_path:
  "follow obj [] = (if isinstance_Model obj then Inr (PStr (text_type obj)) else Inr obj)
   \<and> follow (PModel pk txt attrs displays) [] = Inr (PStr txt)"
  by (simp add: follow_def path_parts_def)

text \<open>
  Claim C7 as stated fails on a record with display getters: the result for the empty
  path is the text form of the record, not the value of a display getter (neither the
  getter of a field nor the getter named by the empty segment).
\<close>

theorem follow_empty_path_counterexample:
  "has_display article_displayed ''status''
   \<and> call_display article_displayed ''status'' = Inr (PStr ''Published'')
   \<and> has_display article_displayed []
   \<and> call_display article_displayed [] = Inr (PStr ''Shown'')
   \<and> follow article_displayed [] = Inr (PStr ''Article 8'')
   \<and> follow article_displayed [] \<noteq> call_display article_displayed ''status''
   \<and> follow article_displayed [] \<noteq> call_display article_displayed []"
  by (simp add: article_displayed_def follow_def path_parts_def has_display_def)

subsection \<open>The scenario: \<^verbatim>\<open>get_data\<close> and \<^verbatim>\<open>get_id\<close>\<close>

text \<open>
  Claim C5. For the article with id 5, title Hello and tags a and b, and the schema
  \<open>title, tags__name\<close>, \<^verbatim>\<open>get_data\<close> returns the dict with \<open>title\<close> mapped to Hello
  and \<open>tags__name\<close> mapped to the list of a and b: one entry per field of the schema,
  each the value of \<^verbatim>\<open>follow\<close>, in whichever order the schema names its fields.
  \<^verbatim>\<open>get_id\<close> returns the string 5.
\<close>

theorem scenario_article:
  "get_data [''title'', ''tags__name''] article
     = Inr [(''title'', PStr ''Hello''), (''tags__name'', PList [PStr ''a'', PStr ''b''])]
   \<and> follow article ''title'' = Inr (PStr ''Hello'')
   \<and> follow article ''tags__name'' = Inr (PList [PStr ''a'', PStr ''b''])
   \<and> get_data [''tags__name'', ''title''] article
     = Inr [(''tags__name'', PList [PStr ''a'', PStr ''b'']), (''title'', PStr ''Hello'')]
   \<and> get_id article = Inr ''5''"
  by (simp add: get_data_def article_def tag_a_def tag_b_def follow_def path_parts_def
        has_display_def py_getattr_default_def digits.simps digit_char_def)

subsection \<open>Batch windows of \<^verbatim>\<open>get_objects\<close>\<close>














subsection \<open>\<^verbatim>\<open>document_field\<close>\<close>

text \<open>
  Claim C8. \<^verbatim>\<open>document_field\<close> is a fixed table on the class of the field descriptor:
  a \<^verbatim>\<open>DateField\<close> and a \<^verbatim>\<open>DateTimeField\<close> give the search type date, an
  \<^verbatim>\<open>IntegerField\<close> gives long, and every other class gives analyzed text (analyzer
  snowball) with the subfield \<open>raw\<close> that is not analyzed. The result depends on the
  class of the descriptor only: two descriptors of one class get equal results. The
  function reads and writes no state: it has no argument and no result but the
  descriptor and the search type.
\<close>

theorem document_field_table:
  "document_field f =
     (if field_class f = DateField then Date
      else if field_class f = DateTimeField then Date
      else if field_class f = IntegerField then Long
      else String [(''analyzer'', ''snowball'')]
                  [(''raw'', String [(''index'', ''not_analyzed'')] [])])
   \<and> (field_class f = field_class g \<longrightarrow> document_field f = document_field g)"
  by (simp add: document_field_def)

theorem document_field_table_witness:
  "field_class created_field = field_class updated_field
   \<and> created_field \<noteq> updated_field
   \<and> document_field created_field = Date
   \<and> document_field updated_field = Date
   \<and> document_field \<lparr>field_name = ''at'', field_class = DateTimeField\<rparr> = Date
   \<and> document_field \<lparr>field_name = ''n'', field_class = IntegerField\<rparr> = Long
   \<and> document_field title_field = text_with_raw
   \<and> document_field views_field = text_with_raw"
  using document_field_table [of created_field updated_field]
  by (simp add: created_field_def updated_field_def title_field_def views_field_def
        text_with_raw_def document_field_def)

subsection \<open>\<^verbatim>\<open>document_from_model\<close>\<close>

lemma schema_fields_set: "(n, t) \<in> set (schema_fields attrs) \<longleftrightarrow> (n, FieldAttr t) \<in> set attrs"
  by (induction attrs rule: schema_fields.induct) auto

lemma schema_fields_keys: "fst ` set (schema_fields attrs) \<subseteq> fst ` set attrs"
  by (force simp: schema_fields_set)

lemma schema_fields_distinct:
  "distinct (map fst attrs) \<Longrightarrow> distinct (map fst (schema_fields attrs))"
proof (induction attrs rule: schema_fields.induct)
  case (2 n t attrs)
  then show ?case using schema_fields_keys [of attrs] by auto
qed simp_all

lemma add_field_attrs_distinct:
  "distinct (map fst attrs) \<Longrightarrow> distinct (map fst (add_field_attrs ff fs attrs))"
  by (induction fs arbitrary: attrs) (simp_all add: distinct_update)

lemma find_append_case:
  "find P (xs @ ys) = (case find P xs of None \<Rightarrow> find P ys | Some x \<Rightarrow> Some x)"
  by (induction xs) auto

lemma find_Some_set: "find P xs = Some y \<Longrightarrow> y \<in> set xs \<and> P y"
  by (induction xs) (auto split: if_splits)

text \<open>The attribute stored under a name is the one of the last field of that name
  that is not an AutoField; without such a field the attribute is as before.\<close>

lemma add_field_attrs_map_of:
  "map_of (add_field_attrs ff fs attrs) n =
     (case find (\<lambda>f. \<not> isinstance_AutoField (field_class f) \<and> field_name f = n) (rev fs) of
        Some f \<Rightarrow> Some (FieldAttr (ff f))
      | None \<Rightarrow> map_of attrs n)"
proof (induction fs arbitrary: attrs)
  case Nil
  then show ?case by simp
next
  case (Cons f fs)
  show ?case
    by (simp add: Cons.IH find_append_case update_conv' split: option.splits)
qed

lemma find_unique:
  assumes "distinct (map g xs)" "x \<in> set xs" "P x"
  shows "find (\<lambda>y. P y \<and> g y = g x) (rev xs) = Some x"
proof -
  obtain y where y: "find (\<lambda>y. P y \<and> g y = g x) (rev xs) = Some y"
    using assms(2,3) by (cases "find (\<lambda>y. P y \<and> g y = g x) (rev xs)") (auto simp: find_None_iff)
  then have "y \<in> set xs" "g y = g x"
    using find_Some_set [OF y] by auto
  with assms(1,2) have "y = x"
    by (meson distinct_map inj_onD)
  with y show ?thesis by simp
qed


lemma class_attrs_document_from_model:
  "\<exists>attrs0. distinct (map fst attrs0) \<and> schema_fields attrs0 = []
     \<and> class_attrs (document_from_model conf m base index using doc_type mapping ff) =
         add_field_attrs (case ff of None \<Rightarrow> document_field | Some g \<Rightarrow> g)
           (meta_fields m @ meta_many_to_many m) attrs0"
  apply (simp add: document_from_model_def Let_def)
  apply (rule exI)
  apply (intro conjI)
    prefer 3
    apply (rule refl)
   apply simp_all
  done

lemma schema_of_fields:
  fixes factory :: "model_field \<Rightarrow> es_field" and fs :: "model_field list"
    and attrs0 :: "(string \<times> attr_value) list"
  assumes init: "distinct (map fst attrs0)" "schema_fields attrs0 = []"
  defines "auto \<equiv> \<lambda>f. isinstance_AutoField (field_class f)"
  defines "schema \<equiv> schema_fields (add_field_attrs factory fs attrs0)"
  shows "(\<forall>f \<in> set fs. \<not> auto f \<longrightarrow> field_name f \<in> fst ` set schema)
       \<and> (\<forall>(n, t) \<in> set schema. \<exists>f \<in> set fs. \<not> auto f \<and> field_name f = n \<and> t = factory f)
       \<and> (distinct (map field_name fs) \<longrightarrow>
            (\<forall>f \<in> set fs. \<not> auto f \<longrightarrow>
               map_of (add_field_attrs factory fs attrs0) (field_name f)
                 = Some (FieldAttr (factory f)))
            \<and> (\<forall>f \<in> set fs. auto f \<longrightarrow> field_name f \<notin> fst ` set schema)
            \<and> length schema = length (filter (\<lambda>f. \<not> auto f) fs))"
proof -
  let ?final = "add_field_attrs factory fs attrs0"
  have dist: "distinct (map fst ?final)"
    using init(1) by (rule add_field_attrs_distinct)
  have no_init: "map_of attrs0 n \<noteq> Some (FieldAttr t)" for n t
  proof
    assume "map_of attrs0 n = Some (FieldAttr t)"
    then have "(n, FieldAttr t) \<in> set attrs0" by (rule map_of_SomeD)
    then have "(n, t) \<in> set (schema_fields attrs0)" by (simp add: schema_fields_set)
    with init(2) show False by simp
  qed
  have mem: "(n, t) \<in> set schema \<longleftrightarrow> map_of ?final n = Some (FieldAttr t)" for n t
    unfolding schema_def using dist by (simp add: schema_fields_set)
  have a: "field_name f \<in> fst ` set schema" if "f \<in> set fs" "\<not> auto f" for f
  proof -
    have "find (\<lambda>f'. \<not> auto f' \<and> field_name f' = field_name f) (rev fs) \<noteq> None"
      using that by (auto simp: find_None_iff)
    then obtain f' where
      "find (\<lambda>f'. \<not> auto f' \<and> field_name f' = field_name f) (rev fs) = Some f'" by auto
    then have "map_of ?final (field_name f) = Some (FieldAttr (factory f'))"
      by (simp add: add_field_attrs_map_of auto_def)
    then have "(field_name f, factory f') \<in> set schema" by (simp add: mem)
    then show ?thesis by force
  qed
  have b: "\<exists>f \<in> set fs. \<not> auto f \<and> field_name f = n \<and> t = factory f"
    if "(n, t) \<in> set schema" for n t
  proof -
    from that have m: "map_of ?final n = Some (FieldAttr t)" by (simp add: mem)
    show ?thesis
    proof (cases "find (\<lambda>f. \<not> auto f \<and> field_name f = n) (rev fs)")
      case None
      with m have "map_of attrs0 n = Some (FieldAttr t)"
        by (simp add: add_field_attrs_map_of auto_def)
      with no_init show ?thesis by simp
    next
      case (Some f)
      with m have "t = factory f" by (simp add: add_field_attrs_map_of auto_def)
      moreover from find_Some_set [OF Some] have "f \<in> set fs" "\<not> auto f" "field_name f = n"
        by auto
      ultimately show ?thesis by blast
    qed
  qed
  have c: "(\<forall>f \<in> set fs. \<not> auto f \<longrightarrow> map_of ?final (field_name f) = Some (FieldAttr (factory f)))
            \<and> (\<forall>f \<in> set fs. auto f \<longrightarrow> field_name f \<notin> fst ` set schema)
            \<and> length schema = length (filter (\<lambda>f. \<not> auto f) fs)"
    if d: "distinct (map field_name fs)"
  proof -
    have c1: "map_of ?final (field_name f) = Some (FieldAttr (factory f))"
      if "f \<in> set fs" "\<not> auto f" for f
      using find_unique [OF d that(1), of "\<lambda>f. \<not> auto f"] that(2)
      by (simp add: add_field_attrs_map_of auto_def)
    have c2: "field_name f \<notin> fst ` set schema" if "f \<in> set fs" "auto f" for f
    proof
      assume "field_name f \<in> fst ` set schema"
      then obtain t where "(field_name f, t) \<in> set schema" by force
      with b obtain f' where f': "f' \<in> set fs" "\<not> auto f'" "field_name f' = field_name f"
        by blast
      with d that(1) have "f' = f" by (meson distinct_map inj_onD)
      with f'(2) that(2) show False by simp
    qed
    have keys: "set (map fst schema) = set (map field_name (filter (\<lambda>f. \<not> auto f) fs))"
    proof (intro equalityI subsetI)
      fix n assume "n \<in> set (map fst schema)"
      then obtain t where "(n, t) \<in> set schema" by force
      with b show "n \<in> set (map field_name (filter (\<lambda>f. \<not> auto f) fs))" by force
    next
      fix n assume "n \<in> set (map field_name (filter (\<lambda>f. \<not> auto f) fs))"
      with a show "n \<in> set (map fst schema)" by force
    qed
    have "distinct (map fst schema)"
      unfolding schema_def using dist by (rule schema_fields_distinct)
    then have "length schema = card (set (map fst schema))"
      by (metis distinct_card length_map)
    also have "\<dots> = card (set (map field_name (filter (\<lambda>f. \<not> auto f) fs)))"
      by (simp only: keys)
    also have "\<dots> = length (filter (\<lambda>f. \<not> auto f) fs)"
      using d by (metis distinct_card distinct_map_filter length_map)
    finally have c3: "length schema = length (filter (\<lambda>f. \<not> auto f) fs)" .
    from c1 c2 c3 show ?thesis by blast
  qed
  from a b c show ?thesis by blast
qed

text \<open>
  Claim C10. In the class that \<^verbatim>\<open>document_from_model\<close> generates, every field of
  \<^verbatim>\<open>_meta.fields + _meta.many_to_many\<close> that is not an \<^verbatim>\<open>AutoField\<close> has a schema
  attribute under its name, and every schema attribute is the value of the field factory
  on such a field. Where the field names of the model are distinct (as they are in a
  model class) the attribute of a field is the factory's value on that field, there is
  exactly one schema attribute per field that is not an \<^verbatim>\<open>AutoField\<close>, and the name of
  an \<^verbatim>\<open>AutoField\<close> (the automatic primary key) is not a name of the schema.
  \<^verbatim>\<open>get_id\<close> does not read the schema: it renders the primary key of the record.
\<close>

theorem document_from_model_schema:
  "let dc_attrs = class_attrs (document_from_model conf m base index using doc_type mapping ff);
       schema = schema_fields dc_attrs;
       fs = meta_fields m @ meta_many_to_many m;
       factory = (case ff of None \<Rightarrow> document_field | Some g \<Rightarrow> g)
   in (\<forall>f \<in> set fs. \<not> isinstance_AutoField (field_class f) \<longrightarrow>
         field_name f \<in> fst ` set schema)
    \<and> (\<forall>(n, t) \<in> set schema.
         \<exists>f \<in> set fs. \<not> isinstance_AutoField (field_class f) \<and> field_name f = n \<and> t = factory f)
    \<and> (distinct (map field_name fs) \<longrightarrow>
         (\<forall>f \<in> set fs. \<not> isinstance_AutoField (field_class f) \<longrightarrow>
            map_of dc_attrs (field_name f) = Some (FieldAttr (factory f)))
         \<and> (\<forall>f \<in> set fs. isinstance_AutoField (field_class f) \<longrightarrow>
              field_name f \<notin> fst ` set schema)
         \<and> length schema = length (filter (\<lambda>f. \<not> isinstance_AutoField (field_class f)) fs))
    \<and> get_id (PModel pk txt attrs displays) = Inr (str_of_pk pk)"
proof -
  obtain attrs0 where init: "distinct (map fst attrs0)" "schema_fields attrs0 = []"
    and eq: "class_attrs (document_from_model conf m base index using doc_type mapping ff) =
         add_field_attrs (case ff of None \<Rightarrow> document_field | Some g \<Rightarrow> g)
           (meta_fields m @ meta_many_to_many m) attrs0"
    using class_attrs_document_from_model by blast
  have "get_id (PModel pk txt attrs displays) = Inr (str_of_pk pk)" by simp
  with schema_of_fields [OF init,
      where factory = "case ff of None \<Rightarrow> document_field | Some g \<Rightarrow> g"
        and fs = "meta_fields m @ meta_many_to_many m"]
  show ?thesis unfolding Let_def eq by blast
qed

theorem document_from_model_schema_witness:
  "distinct (map field_name (meta_fields article_model @ meta_many_to_many article_model))
   \<and> isinstance_AutoField (field_class id_field)
   \<and> schema_fields (class_attrs (document_from_model no_settings article_model doc_type_base
        None ''default'' None None None))
       = [(''title'', text_with_raw), (''created'', Date), (''tags'', text_with_raw)]
   \<and> ''id'' \<notin> fst ` set (schema_fields (class_attrs (document_from_model no_settings
        article_model doc_type_base None ''default'' None None None)))
   \<and> get_id article = Inr ''5''"
  using document_from_model_schema [of no_settings article_model doc_type_base None "''default''"
      None None None "IntPk 5" "''Hello''"
      "[(''id'', PInt 5), (''title'', PStr ''Hello''), (''tags'', PManager [tag_a, tag_b])]" "[]"]
  by (simp add: article_model_def id_field_def title_field_def created_field_def tags_field_def
        document_from_model_def document_field_def no_settings_def doc_type_base_def
        text_with_raw_def article_def digits.simps digit_char_def Let_def)

subsection \<open>\<^verbatim>\<open>register\<close>\<close>

lemma register_app_documents: "documents (register_app w reg doc app) = documents reg"
  by (simp add: register_app_def split: option.splits)

lemma register_documents_after:
  "fst (register w reg doc app) = Returned \<Longrightarrow> in_documents doc (snd (register w reg doc app))"
  by (auto simp: register_def in_documents_def Let_def register_app_documents
           split: if_splits option.splits)

lemma register_asserts_after:
  "fst (register w reg doc app) = Returned \<Longrightarrow> assert_indexable doc \<and> assert_app w app"
  by (auto simp: register_def Let_def split: if_splits option.splits)

lemma register_duplicate:
  "in_documents doc reg \<Longrightarrow> assert_indexable doc \<Longrightarrow> assert_app w app
     \<Longrightarrow> register w reg doc app = (Returned, reg)"
  by (simp add: register_def)

lemma register_duplicate_state: "in_documents doc reg \<Longrightarrow> snd (register w reg doc app) = reg"
  by (simp add: register_def)

lemma register_new_length:
  "\<not> in_documents doc reg \<Longrightarrow> assert_indexable doc \<Longrightarrow> assert_app w app
     \<Longrightarrow> length (documents (snd (register w reg doc app))) = length (documents reg) + 1"
  by (auto simp: register_def Let_def register_app_documents split: option.splits)
lemma article_registry_documents: "documents article_registry = [article_doc]"
  by (simp add: article_registry_def register_def empty_registry_def article_doc_def
        blog_app_def blog_world_def assert_indexable_def assert_app_def in_documents_def
        register_app_def Let_def)

text \<open>
  Claim C6. Let \<open>doc\<close> be registered in \<open>reg\<close>: its identity is among those of
  \<open>documents reg\<close>. Then a call of \<^verbatim>\<open>register\<close> with \<open>doc\<close> leaves the registry as it
  is, whatever application is passed: the list of documents keeps its length, and the
  three other tables are unchanged. When the two assertions of the call hold, the call
  returns without raising. So a second call after a call that returned, with the same
  arguments, returns and changes nothing. Membership is by identity: a class whose
  identity is not yet in the list is appended, also when all its other attributes equal
  those of a registered class.
\<close>

theorem register_idempotent:
  assumes "in_documents doc reg"
  shows "snd (register w reg doc app) = reg
       \<and> length (documents (snd (register w reg doc app))) = length (documents reg)
       \<and> model_documents (snd (register w reg doc app)) = model_documents reg
       \<and> model_doc_types (snd (register w reg doc app)) = model_doc_types reg
       \<and> app_documents (snd (register w reg doc app)) = app_documents reg
       \<and> (assert_indexable doc \<and> assert_app w app \<longrightarrow> register w reg doc app = (Returned, reg))
       \<and> (fst (register w reg0 doc' app') = Returned \<longrightarrow>
            register w (snd (register w reg0 doc' app')) doc' app'
              = (Returned, snd (register w reg0 doc' app')))
       \<and> (cid doc' \<notin> cid ` set (documents reg) \<and> assert_indexable doc' \<and> assert_app w app \<longrightarrow>
            length (documents (snd (register w reg doc' app))) = length (documents reg) + 1)"
proof -
  have same: "snd (register w reg doc app) = reg"
    using assms by (rule register_duplicate_state)
  have silent: "register w reg doc app = (Returned, reg)"
    if "assert_indexable doc \<and> assert_app w app"
    using assms that by (simp add: register_duplicate)
  have again: "register w (snd (register w reg0 doc' app')) doc' app'
                 = (Returned, snd (register w reg0 doc' app'))"
    if "fst (register w reg0 doc' app') = Returned"
    using register_documents_after [OF that] register_asserts_after [OF that]
    by (simp add: register_duplicate)
  have other: "length (documents (snd (register w reg doc' app))) = length (documents reg) + 1"
    if "cid doc' \<notin> cid ` set (documents reg) \<and> assert_indexable doc' \<and> assert_app w app"
    using that by (intro register_new_length) (simp_all add: in_documents_def)
  from silent again other show ?thesis by (simp add: same)
qed

theorem register_idempotent_witness:
  "in_documents article_doc article_registry
   \<and> assert_indexable article_doc \<and> assert_app blog_world (Some blog_app)
   \<and> register blog_world article_registry article_doc (Some blog_app)
        = (Returned, article_registry)
   \<and> length (documents article_registry) = 1
   \<and> article_doc_twin\<lparr>cid := cid article_doc\<rparr> = article_doc
   \<and> cid article_doc_twin \<notin> cid ` set (documents article_registry)
   \<and> length (documents (snd (register blog_world article_registry article_doc_twin
                                  (Some blog_app)))) = 2"
proof -
  have h1: "in_documents article_doc article_registry"
    by (simp add: in_documents_def article_registry_documents)
  have h2: "assert_indexable article_doc" "assert_indexable article_doc_twin"
    by (simp_all add: assert_indexable_def article_doc_def article_doc_twin_def)
  have h3: "assert_app blog_world (Some blog_app)"
    by (simp add: assert_app_def blog_world_def blog_app_def)
  have h4: "cid article_doc_twin \<notin> cid ` set (documents article_registry)"
    by (simp add: article_registry_documents article_doc_def article_doc_twin_def)
  have h5: "article_doc_twin\<lparr>cid := cid article_doc\<rparr> = article_doc"
    by (simp add: article_doc_def article_doc_twin_def)
  show ?thesis
    using register_idempotent [OF h1, where w = blog_world and app = "Some blog_app"
        and doc' = article_doc_twin] h1 h2 h3 h4 h5
    by (simp add: article_registry_documents)
qed

text \<open>
  Claim C9. When one of the two assertions fails (\<open>doc\<close> is not a subclass of
  \<^verbatim>\<open>Indexable\<close>, or an application is given that is not an \<^verbatim>\<open>AppConfig\<close> or is not
  installed), \<^verbatim>\<open>register\<close> raises AssertionError and the registry is as before the
  call; and whenever the call ends with AssertionError, one of the assertions failed
  and the four tables are unchanged.
\<close>

theorem register_assertion_atomic:
  "(\<not> assert_indexable doc \<or> \<not> assert_app w app \<longrightarrow>
      register w reg doc app = (Raised AssertionError, reg))
   \<and> (fst (register w reg doc app) = Raised AssertionError \<longrightarrow>
        (\<not> assert_indexable doc \<or> \<not> assert_app w app)
        \<and> snd (register w reg doc app) = reg
        \<and> documents (snd (register w reg doc app)) = documents reg
        \<and> model_documents (snd (register w reg doc app)) = model_documents reg
        \<and> model_doc_types (snd (register w reg doc app)) = model_doc_types reg
        \<and> app_documents (snd (register w reg doc app)) = app_documents reg)
   \<and> (assert_indexable doc \<longleftrightarrow> is_Indexable doc)
   \<and> (assert_app w app \<longleftrightarrow>
        (case app of None \<Rightarrow> True
         | Some a \<Rightarrow> is_AppConfig a \<and> app_name a \<in> set (installed_apps w)))"
  by (auto simp: register_def Let_def assert_indexable_def assert_app_def
           split: if_splits option.splits)

theorem register_assertion_atomic_witness:
  "\<not> assert_app blog_world (Some ghost_app)
   \<and> register blog_world article_registry article_doc_twin (Some ghost_app)
        = (Raised AssertionError, article_registry)
   \<and> \<not> assert_indexable (article_doc\<lparr>is_Indexable := False\<rparr>)
   \<and> register blog_world empty_registry (article_doc\<lparr>is_Indexable := False\<rparr>) None
        = (Raised AssertionError, empty_registry)"
proof -
  have h1: "\<not> assert_app blog_world (Some ghost_app)"
    by (simp add: assert_app_def blog_world_def ghost_app_def)
  have h2: "\<not> assert_indexable (article_doc\<lparr>is_Indexable := False\<rparr>)"
    by (simp add: assert_indexable_def)
  show ?thesis
    using register_assertion_atomic [of article_doc_twin blog_world "Some ghost_app"
        article_registry]
      register_assertion_atomic [of "article_doc\<lparr>is_Indexable := False\<rparr>" blog_world None
        empty_registry] h1 h2
    by simp
qed

end
